theory Spec2Isabelle
  imports Main
begin

section \<open>The space deletion example\<close>

text \<open>
  The repository carries one example through its chapters: \<^verbatim>\<open>DeleteSpace\<close>. It exists
  in two forms. In \<^verbatim>\<open>code-semantics/tests/example/delete_space.go\<close> the data access is
  two package-level functions, \<^verbatim>\<open>fetchSpaceWithID\<close> and \<^verbatim>\<open>removeSpaceWithID\<close>. In
  \<^verbatim>\<open>code-semantics/test-doubles/example/delete_space.go\<close> the data access is the
  interface \<^verbatim>\<open>Store\<close>, handed in as the first argument. Both are embedded here.
\<close>

subsection \<open>Error values\<close>

text \<open>
  Go's \<^verbatim>\<open>error\<close> is an interface; the five package variables are five separate
  results of \<^verbatim>\<open>errors.New\<close>, hence five different pointers, and the tests compare
  them with \<^verbatim>\<open>!=\<close>. A store is free to return any value of the interface from
  \<^verbatim>\<open>RemoveSpaceWithID\<close>, one of the five included (the generated double lives in the
  same package): \<open>otherError\<close> stands for every error value that is none of the five.
  A Go \<^verbatim>\<open>error\<close> result is an \<open>error option\<close>, \<open>None\<close> being \<^verbatim>\<open>nil\<close>.
\<close>

datatype error =
    errCannotFetchSpace
  | errNotAnOwnedSpace
  | errNonEmptySpace
  | errUnremovableDefaultSpace
  | errSpaceCouldNotBeRemoved
  | otherError string

subsection \<open>Spaces\<close>

definition defaultSpaceName :: string where
  "defaultSpaceName = ''default''"

datatype resource = Resource

text \<open>
  The struct \<^verbatim>\<open>Space\<close>. Its field \<^verbatim>\<open>id\<close> is written \<open>id'\<close>, the name \<open>id\<close> being HOL's
  identity function. A \<^verbatim>\<open>nil\<close> slice and an empty one both have length zero, and the length is
  all the code reads, so \<^verbatim>\<open>resources\<close> is a list.
\<close>

record Space =
  id' :: string
  ownerID :: string
  name :: string
  resources :: "resource list"

definition isOwnedBy :: "Space \<Rightarrow> string \<Rightarrow> bool" where
  "isOwnedBy s userID = (ownerID s = userID)"

definition isEmpty :: "Space \<Rightarrow> bool" where
  "isEmpty s = (length (resources s) = 0)"

definition isTheDefault :: "Space \<Rightarrow> bool" where
  "isTheDefault s = (name s = defaultSpaceName)"

subsection \<open>The store\<close>

text \<open>
  The interface \<^verbatim>\<open>Store\<close> has two methods. An implementation may keep state of its own and
  change it on every call, so each method takes the state of the store and returns the new
  one beside its result; \<open>'s\<close> is whatever the implementation keeps. A \<^verbatim>\<open>*Space\<close> result is a
  \<open>Space option\<close>, \<open>None\<close> being the \<^verbatim>\<open>nil\<close> pointer. The record is the method set of the value
  behind the interface: a \<^verbatim>\<open>nil\<close> interface is no store, and a method is taken to return.
\<close>

record 's Store =
  FetchSpaceWithID :: "string \<Rightarrow> 's \<Rightarrow> Space option \<times> 's"
  RemoveSpaceWithID :: "string \<Rightarrow> 's \<Rightarrow> error option \<times> 's"

subsection \<open>DeleteSpace with an injected store\<close>

text \<open>
  \<^verbatim>\<open>DeleteSpace(store, id, whoAmI)\<close> of the test-doubles chapter, guard by guard. The result
  is the returned error together with the state the store is left in. The parameter \<^verbatim>\<open>id\<close>
  is written \<open>ident\<close>, here and below.
\<close>

definition DeleteSpace :: "'s Store \<Rightarrow> string \<Rightarrow> string \<Rightarrow> 's \<Rightarrow> error option \<times> 's" where
  "DeleteSpace store ident whoAmI s =
     (case FetchSpaceWithID store ident s of
        (None, s1) \<Rightarrow> (Some errCannotFetchSpace, s1)
      | (Some space, s1) \<Rightarrow>
          if \<not> isOwnedBy space whoAmI then (Some errNotAnOwnedSpace, s1)
          else if \<not> isEmpty space then (Some errNonEmptySpace, s1)
          else if isTheDefault space then (Some errUnremovableDefaultSpace, s1)
          else RemoveSpaceWithID store ident s1)"

subsection \<open>DeleteSpace with the data access built in\<close>

text \<open>
  The tests chapter: \<^verbatim>\<open>fetchSpaceWithID\<close> starts from one fixed space and its \<^verbatim>\<open>switch\<close>
  changes it for three identifiers; \<^verbatim>\<open>removeSpaceWithID\<close> fails for one identifier.
\<close>

definition fetchSpaceWithID :: "string \<Rightarrow> Space option" where
  "fetchSpaceWithID ident =
     (let space = \<lparr>id' = ''known-space'', ownerID = ''known-owner'',
                   name = ''a space name'', resources = []\<rparr>
      in if ident = ''unknown-space'' then None
         else if ident = ''non-empty-space'' then Some (space\<lparr>resources := [Resource]\<rparr>)
         else if ident = ''default-space'' then Some (space\<lparr>name := defaultSpaceName\<rparr>)
         else Some space)"

definition removeSpaceWithID :: "string \<Rightarrow> error option" where
  "removeSpaceWithID ident =
     (if ident = ''fails-on-remove'' then Some errSpaceCouldNotBeRemoved else None)"

definition DeleteSpace_builtin :: "string \<Rightarrow> string \<Rightarrow> error option" where
  "DeleteSpace_builtin ident whoAmI =
     (case fetchSpaceWithID ident of
        None \<Rightarrow> Some errCannotFetchSpace
      | Some space \<Rightarrow>
          if \<not> isOwnedBy space whoAmI then Some errNotAnOwnedSpace
          else if \<not> isEmpty space then Some errNonEmptySpace
          else if isTheDefault space then Some errUnremovableDefaultSpace
          else removeSpaceWithID ident)"

text \<open>The two functions of the tests chapter as a store that keeps nothing.\<close>

definition builtinStore :: "unit Store" where
  "builtinStore = \<lparr>FetchSpaceWithID = (\<lambda>ident s. (fetchSpaceWithID ident, s)),
                   RemoveSpaceWithID = (\<lambda>ident s. (removeSpaceWithID ident, s))\<rparr>"

subsection \<open>Observing the calls\<close>

text \<open>
  To count what \<^verbatim>\<open>DeleteSpace\<close> asks of its store, any store is wrapped the way the generated
  double of the test-doubles chapter wraps its expectations: each method appends its own call,
  with the argument it received, to a log kept beside the state, and then behaves as the store
  it wraps.
\<close>

datatype call = FetchCall string | RemoveCall string

definition recording :: "'s Store \<Rightarrow> ('s \<times> call list) Store" where
  "recording store =
     \<lparr>FetchSpaceWithID = (\<lambda>ident (s, log).
         (fst (FetchSpaceWithID store ident s),
          (snd (FetchSpaceWithID store ident s), log @ [FetchCall ident]))),
      RemoveSpaceWithID = (\<lambda>ident (s, log).
         (fst (RemoveSpaceWithID store ident s),
          (snd (RemoveSpaceWithID store ident s), log @ [RemoveCall ident])))\<rparr>"

text \<open>The calls one run of \<^verbatim>\<open>DeleteSpace\<close> makes, starting from an empty log.\<close>

definition calls :: "'s Store \<Rightarrow> string \<Rightarrow> string \<Rightarrow> 's \<Rightarrow> call list" where
  "calls store ident whoAmI s = snd (snd (DeleteSpace (recording store) ident whoAmI (s, [])))"

text \<open>The guards a fetched space has to pass before the store is asked to remove.\<close>

definition removable :: "Space \<Rightarrow> string \<Rightarrow> bool" where
  "removable space whoAmI = (isOwnedBy space whoAmI \<and> isEmpty space \<and> \<not> isTheDefault space)"

text \<open>The arguments of the remove calls of a log, in order.\<close>

fun removals :: "call list \<Rightarrow> string list" where
  "removals [] = []"
| "removals (FetchCall ident # cs) = removals cs"
| "removals (RemoveCall ident # cs) = ident # removals cs"

text \<open>The arguments of the fetch calls of a log, in order.\<close>

fun fetches :: "call list \<Rightarrow> string list" where
  "fetches [] = []"
| "fetches (FetchCall ident # cs) = ident # fetches cs"
| "fetches (RemoveCall ident # cs) = fetches cs"

subsection \<open>A configured double\<close>

text \<open>
  The tests of the test-doubles chapter configure the generated \<^verbatim>\<open>StoreDouble\<close> with
  \<^verbatim>\<open>FetchSpaceWithID(gomock.Any()).Return(space)\<close> and
  \<^verbatim>\<open>RemoveSpaceWithID(gomock.Any()).Return(err)\<close>: whatever the argument, the double answers
  with the configured values. \<open>double space err\<close> is that store.
\<close>

definition double :: "Space option \<Rightarrow> error option \<Rightarrow> unit Store" where
  "double space err = \<lparr>FetchSpaceWithID = (\<lambda>ident s. (space, s)),
                       RemoveSpaceWithID = (\<lambda>ident s. (err, s))\<rparr>"

subsection \<open>Stores that answer the same way twice\<close>

text \<open>
  Two ways a store can be unaffected by earlier calls: its answers do not depend on its
  state (the double above, also when something counts its calls), or no call changes its state.
\<close>

definition sameAnswers :: "'s Store \<Rightarrow> bool" where
  "sameAnswers store =
     (\<forall>ident s t. fst (FetchSpaceWithID store ident s) = fst (FetchSpaceWithID store ident t)
                 \<and> fst (RemoveSpaceWithID store ident s) = fst (RemoveSpaceWithID store ident t))"

definition keepsState :: "'s Store \<Rightarrow> bool" where
  "keepsState store =
     (\<forall>ident s. snd (FetchSpaceWithID store ident s) = s
               \<and> snd (RemoveSpaceWithID store ident s) = s)"

subsection \<open>Which guard stops a call\<close>

text \<open>
  The position of the guard at which \<^verbatim>\<open>DeleteSpace\<close> returns for a given answer of the fetch:
  1 to 4 in the order of the source, 0 when every guard is passed and the store is asked
  to remove.
\<close>

definition stoppedAt :: "Space option \<Rightarrow> string \<Rightarrow> nat" where
  "stoppedAt fetched whoAmI =
     (case fetched of
        None \<Rightarrow> 1
      | Some space \<Rightarrow>
          if \<not> isOwnedBy space whoAmI then 2
          else if \<not> isEmpty space then 3
          else if isTheDefault space then 4
          else 0)"

section \<open>Shared facts\<close>

lemma DeleteSpace_None:
  "FetchSpaceWithID store ident s = (None, s1) \<Longrightarrow>
   DeleteSpace store ident whoAmI s = (Some errCannotFetchSpace, s1)"
  by (simp add: DeleteSpace_def)

lemma DeleteSpace_Some:
  "FetchSpaceWithID store ident s = (Some space, s1) \<Longrightarrow>
   DeleteSpace store ident whoAmI s =
     (if \<not> isOwnedBy space whoAmI then (Some errNotAnOwnedSpace, s1)
      else if \<not> isEmpty space then (Some errNonEmptySpace, s1)
      else if isTheDefault space then (Some errUnremovableDefaultSpace, s1)
      else RemoveSpaceWithID store ident s1)"
  by (simp add: DeleteSpace_def)

lemma recording_fetch:
  "FetchSpaceWithID (recording store) ident (s, log) =
     (fst (FetchSpaceWithID store ident s), (snd (FetchSpaceWithID store ident s), log @ [FetchCall ident]))"
  by (simp add: recording_def)

lemma recording_remove:
  "RemoveSpaceWithID (recording store) ident (s, log) =
     (fst (RemoveSpaceWithID store ident s), (snd (RemoveSpaceWithID store ident s), log @ [RemoveCall ident]))"
  by (simp add: recording_def)

lemma removable_iff:
  "removable space whoAmI \<longleftrightarrow> ownerID space = whoAmI \<and> resources space = [] \<and> name space \<noteq> ''default''"
  by (simp add: removable_def isOwnedBy_def isEmpty_def isTheDefault_def defaultSpaceName_def)

lemma result_absent:
  assumes "fst (FetchSpaceWithID store ident s) = None"
  shows "DeleteSpace store ident whoAmI s = (Some errCannotFetchSpace, snd (FetchSpaceWithID store ident s))"
proof -
  from assms have "FetchSpaceWithID store ident s = (None, snd (FetchSpaceWithID store ident s))"
    by (metis prod.collapse)
  then show ?thesis by (rule DeleteSpace_None)
qed

lemma result_present:
  assumes "fst (FetchSpaceWithID store ident s) = Some space"
  shows "DeleteSpace store ident whoAmI s =
     (if ownerID space \<noteq> whoAmI then (Some errNotAnOwnedSpace, snd (FetchSpaceWithID store ident s))
      else if resources space \<noteq> [] then (Some errNonEmptySpace, snd (FetchSpaceWithID store ident s))
      else if name space = ''default'' then (Some errUnremovableDefaultSpace, snd (FetchSpaceWithID store ident s))
      else RemoveSpaceWithID store ident (snd (FetchSpaceWithID store ident s)))"
proof -
  from assms have "FetchSpaceWithID store ident s = (Some space, snd (FetchSpaceWithID store ident s))"
    by (metis prod.collapse)
  then have "DeleteSpace store ident whoAmI s =
     (if \<not> isOwnedBy space whoAmI then (Some errNotAnOwnedSpace, snd (FetchSpaceWithID store ident s))
      else if \<not> isEmpty space then (Some errNonEmptySpace, snd (FetchSpaceWithID store ident s))
      else if isTheDefault space then (Some errUnremovableDefaultSpace, snd (FetchSpaceWithID store ident s))
      else RemoveSpaceWithID store ident (snd (FetchSpaceWithID store ident s)))"
    by (rule DeleteSpace_Some)
  then show ?thesis
    by (simp add: isOwnedBy_def isEmpty_def isTheDefault_def defaultSpaceName_def)
qed

lemma result_removable:
  assumes "fst (FetchSpaceWithID store ident s) = Some space" and "removable space whoAmI"
  shows "DeleteSpace store ident whoAmI s = RemoveSpaceWithID store ident (snd (FetchSpaceWithID store ident s))"
  using result_present [OF assms(1), of whoAmI] assms(2) by (simp add: removable_iff)

lemma result_blocked:
  assumes "fst (FetchSpaceWithID store ident s) = Some space" and "\<not> removable space whoAmI"
  shows "DeleteSpace store ident whoAmI s =
     (Some (if ownerID space \<noteq> whoAmI then errNotAnOwnedSpace
            else if resources space \<noteq> [] then errNonEmptySpace
            else errUnremovableDefaultSpace),
      snd (FetchSpaceWithID store ident s))"
  using result_present [OF assms(1), of whoAmI] assms(2) by (simp add: removable_iff)

lemma calls_absent:
  assumes "fst (FetchSpaceWithID store ident s) = None"
  shows "calls store ident whoAmI s = [FetchCall ident]"
proof -
  have "fst (FetchSpaceWithID (recording store) ident (s, [])) = None"
    using assms by (simp add: recording_fetch)
  from result_absent [OF this] show ?thesis
    by (simp add: calls_def recording_fetch)
qed

lemma calls_blocked:
  assumes "fst (FetchSpaceWithID store ident s) = Some space" and "\<not> removable space whoAmI"
  shows "calls store ident whoAmI s = [FetchCall ident]"
proof -
  have "fst (FetchSpaceWithID (recording store) ident (s, [])) = Some space"
    using assms(1) by (simp add: recording_fetch)
  from result_blocked [OF this assms(2)] show ?thesis
    by (simp add: calls_def recording_fetch)
qed

lemma calls_removable:
  assumes "fst (FetchSpaceWithID store ident s) = Some space" and "removable space whoAmI"
  shows "calls store ident whoAmI s = [FetchCall ident, RemoveCall ident]"
proof -
  have "fst (FetchSpaceWithID (recording store) ident (s, [])) = Some space"
    using assms(1) by (simp add: recording_fetch)
  from result_removable [OF this assms(2)] show ?thesis
    by (simp add: calls_def recording_fetch recording_remove)
qed

lemma double_fetch: "FetchSpaceWithID (double space err) ident s = (space, s)"
  by (simp add: double_def)

lemma double_remove: "RemoveSpaceWithID (double space err) ident s = (err, s)"
  by (simp add: double_def)

lemma builtin_fetch: "FetchSpaceWithID builtinStore ident s = (fetchSpaceWithID ident, s)"
  by (simp add: builtinStore_def)

lemma builtin_remove: "RemoveSpaceWithID builtinStore ident s = (removeSpaceWithID ident, s)"
  by (simp add: builtinStore_def)

lemma result_chain:
  "fst (DeleteSpace store ident whoAmI s) =
     (case fst (FetchSpaceWithID store ident s) of
        None \<Rightarrow> Some errCannotFetchSpace
      | Some space \<Rightarrow>
          if ownerID space \<noteq> whoAmI then Some errNotAnOwnedSpace
          else if resources space \<noteq> [] then Some errNonEmptySpace
          else if name space = ''default'' then Some errUnremovableDefaultSpace
          else fst (RemoveSpaceWithID store ident (snd (FetchSpaceWithID store ident s))))"
proof (cases "fst (FetchSpaceWithID store ident s)")
  case None
  then show ?thesis by (simp add: result_absent)
next
  case (Some space)
  then show ?thesis by (simp add: result_present)
qed

lemma state_chain:
  "snd (DeleteSpace store ident whoAmI s) =
     (case fst (FetchSpaceWithID store ident s) of
        None \<Rightarrow> snd (FetchSpaceWithID store ident s)
      | Some space \<Rightarrow>
          if removable space whoAmI
          then snd (RemoveSpaceWithID store ident (snd (FetchSpaceWithID store ident s)))
          else snd (FetchSpaceWithID store ident s))"
proof (cases "fst (FetchSpaceWithID store ident s)")
  case None
  then show ?thesis by (simp add: result_absent)
next
  case (Some space)
  then show ?thesis
    by (cases "removable space whoAmI") (simp_all add: result_removable result_blocked)
qed

lemma calls_chain:
  "calls store ident whoAmI s =
     (case fst (FetchSpaceWithID store ident s) of
        None \<Rightarrow> [FetchCall ident]
      | Some space \<Rightarrow>
          if removable space whoAmI then [FetchCall ident, RemoveCall ident]
          else [FetchCall ident])"
proof (cases "fst (FetchSpaceWithID store ident s)")
  case None
  then show ?thesis by (simp add: calls_absent)
next
  case (Some space)
  then show ?thesis
    by (cases "removable space whoAmI") (simp_all add: calls_removable calls_blocked)
qed

lemma builtin_chain:
  "DeleteSpace_builtin ident whoAmI =
     (case fetchSpaceWithID ident of
        None \<Rightarrow> Some errCannotFetchSpace
      | Some space \<Rightarrow>
          if ownerID space \<noteq> whoAmI then Some errNotAnOwnedSpace
          else if resources space \<noteq> [] then Some errNonEmptySpace
          else if name space = ''default'' then Some errUnremovableDefaultSpace
          else removeSpaceWithID ident)"
  by (simp add: DeleteSpace_builtin_def isOwnedBy_def isEmpty_def isTheDefault_def
      defaultSpaceName_def split: option.splits)

lemma stoppedAt_result:
  "0 < stoppedAt (fst (FetchSpaceWithID store ident s)) whoAmI \<Longrightarrow>
   fst (DeleteSpace store ident whoAmI s) =
     Some ([errCannotFetchSpace, errNotAnOwnedSpace, errNonEmptySpace, errUnremovableDefaultSpace]
           ! (stoppedAt (fst (FetchSpaceWithID store ident s)) whoAmI - 1))"
  by (simp add: result_chain stoppedAt_def isOwnedBy_def isEmpty_def isTheDefault_def
      defaultSpaceName_def split: option.splits if_splits)

lemma stoppedAt_passed:
  "stoppedAt (fst (FetchSpaceWithID store ident s)) whoAmI = 0 \<Longrightarrow>
   DeleteSpace store ident whoAmI s =
     RemoveSpaceWithID store ident (snd (FetchSpaceWithID store ident s))"
  by (cases "fst (FetchSpaceWithID store ident s)")
     (simp_all add: stoppedAt_def result_removable removable_def split: if_splits)

lemma stoppedAt_le: "stoppedAt fetched whoAmI \<le> 4"
  by (simp add: stoppedAt_def split: option.splits)

section \<open>The claims\<close>

subsection \<open>The order of the guards\<close>

text \<open>
  C1. For every store, identifier and acting user, \<^verbatim>\<open>DeleteSpace\<close> evaluates its guards in
  the order absence, ownership, emptiness, default name, and returns at the first that fails:
  \<open>errCannotFetchSpace\<close> when the fetch answers \<^verbatim>\<open>nil\<close>; otherwise \<open>errNotAnOwnedSpace\<close>
  when the owner of the fetched space is not the acting user; otherwise \<open>errNonEmptySpace\<close>
  when the space has resources; otherwise \<open>errUnremovableDefaultSpace\<close> when its name is
  \<^verbatim>\<open>"default"\<close>; otherwise the result of the remove operation. A space that is both not owned
  and not empty gives \<open>errNotAnOwnedSpace\<close>. The result is always \<^verbatim>\<open>nil\<close>, one of the four
  guard errors, or what the remove returned. The version with the data access built in
  follows the same chain.
\<close>

theorem DeleteSpace_guard_order:
  "fst (DeleteSpace store ident whoAmI s) =
     (case fst (FetchSpaceWithID store ident s) of
        None \<Rightarrow> Some errCannotFetchSpace
      | Some space \<Rightarrow>
          if ownerID space \<noteq> whoAmI then Some errNotAnOwnedSpace
          else if resources space \<noteq> [] then Some errNonEmptySpace
          else if name space = ''default'' then Some errUnremovableDefaultSpace
          else fst (RemoveSpaceWithID store ident (snd (FetchSpaceWithID store ident s))))
   \<and> (\<forall>space. fst (FetchSpaceWithID store ident s) = Some space \<and> ownerID space \<noteq> whoAmI
          \<and> resources space \<noteq> [] \<longrightarrow>
        fst (DeleteSpace store ident whoAmI s) = Some errNotAnOwnedSpace)
   \<and> fst (DeleteSpace store ident whoAmI s) \<in>
        {None, Some errCannotFetchSpace, Some errNotAnOwnedSpace, Some errNonEmptySpace,
         Some errUnremovableDefaultSpace,
         fst (RemoveSpaceWithID store ident (snd (FetchSpaceWithID store ident s)))}
   \<and> DeleteSpace_builtin ident whoAmI =
     (case fetchSpaceWithID ident of
        None \<Rightarrow> Some errCannotFetchSpace
      | Some space \<Rightarrow>
          if ownerID space \<noteq> whoAmI then Some errNotAnOwnedSpace
          else if resources space \<noteq> [] then Some errNonEmptySpace
          else if name space = ''default'' then Some errUnremovableDefaultSpace
          else removeSpaceWithID ident)"
proof (intro conjI allI impI)
  show "fst (DeleteSpace store ident whoAmI s) =
     (case fst (FetchSpaceWithID store ident s) of
        None \<Rightarrow> Some errCannotFetchSpace
      | Some space \<Rightarrow>
          if ownerID space \<noteq> whoAmI then Some errNotAnOwnedSpace
          else if resources space \<noteq> [] then Some errNonEmptySpace
          else if name space = ''default'' then Some errUnremovableDefaultSpace
          else fst (RemoveSpaceWithID store ident (snd (FetchSpaceWithID store ident s))))"
    by (rule result_chain)
next
  fix space
  assume "fst (FetchSpaceWithID store ident s) = Some space \<and> ownerID space \<noteq> whoAmI
          \<and> resources space \<noteq> []"
  then show "fst (DeleteSpace store ident whoAmI s) = Some errNotAnOwnedSpace"
    by (simp add: result_present)
next
  show "fst (DeleteSpace store ident whoAmI s) \<in>
        {None, Some errCannotFetchSpace, Some errNotAnOwnedSpace, Some errNonEmptySpace,
         Some errUnremovableDefaultSpace,
         fst (RemoveSpaceWithID store ident (snd (FetchSpaceWithID store ident s)))}"
    by (cases "fst (FetchSpaceWithID store ident s)") (simp_all add: result_chain)
next
  show "DeleteSpace_builtin ident whoAmI =
     (case fetchSpaceWithID ident of
        None \<Rightarrow> Some errCannotFetchSpace
      | Some space \<Rightarrow>
          if ownerID space \<noteq> whoAmI then Some errNotAnOwnedSpace
          else if resources space \<noteq> [] then Some errNonEmptySpace
          else if name space = ''default'' then Some errUnremovableDefaultSpace
          else removeSpaceWithID ident)"
    by (rule builtin_chain)
qed

text \<open>
  The second scenario of the specification with a resource added: the space belongs to
  someone else and is not empty, and the ownership guard answers.
\<close>

theorem DeleteSpace_guard_order_witness:
  "fst (DeleteSpace
          (double (Some \<lparr>id' = ''known-space'', ownerID = ''someone-else'', name = ''x'',
                         resources = [Resource]\<rparr>) None)
          ''known-space'' ''known-owner'' ()) = Some errNotAnOwnedSpace"
  using DeleteSpace_guard_order
    [of "double (Some \<lparr>id' = ''known-space'', ownerID = ''someone-else'', name = ''x'',
                        resources = [Resource]\<rparr>) None"
        "''known-space''" "''known-owner''" "()"]
  by (simp add: double_fetch)

subsection \<open>A missing space\<close>

text \<open>
  C6. Whenever the fetch of the store answers \<^verbatim>\<open>nil\<close> for the identifier, whoever the acting
  user is, \<^verbatim>\<open>DeleteSpace\<close> returns \<open>errCannotFetchSpace\<close> and the remove of the store is not
  called.
\<close>

theorem absent_space_not_found:
  assumes "fst (FetchSpaceWithID store ident s) = None"
  shows "fst (DeleteSpace store ident whoAmI s) = Some errCannotFetchSpace
         \<and> removals (calls store ident whoAmI s) = []"
  using assms by (simp add: result_absent calls_absent)

theorem absent_space_not_found_witness:
  "fst (FetchSpaceWithID builtinStore ''unknown-space'' ()) = None
   \<and> fst (DeleteSpace builtinStore ''unknown-space'' ''known-owner'' ()) = Some errCannotFetchSpace
   \<and> removals (calls builtinStore ''unknown-space'' ''known-owner'' ()) = []"
proof -
  have h: "fst (FetchSpaceWithID builtinStore ''unknown-space'' ()) = None"
    by (simp add: builtin_fetch fetchSpaceWithID_def)
  from absent_space_not_found [OF h, of "''known-owner''"] h show ?thesis by simp
qed

subsection \<open>The two versions agree\<close>

text \<open>
  C9. The version of \<^verbatim>\<open>DeleteSpace\<close> with \<^verbatim>\<open>fetchSpaceWithID\<close> and \<^verbatim>\<open>removeSpaceWithID\<close> built in
  returns, for every identifier and acting user, what the version with an injected store
  returns on the store made of those two functions.
\<close>

theorem builtin_is_injected:
  "DeleteSpace_builtin ident whoAmI = fst (DeleteSpace builtinStore ident whoAmI s)"
  by (cases "fetchSpaceWithID ident")
     (simp_all add: builtin_chain result_chain builtin_fetch builtin_remove)

text \<open>
  At \<^verbatim>\<open>"default-space"\<close> both versions stop at the guard of the default name.
\<close>

theorem builtin_is_injected_witness:
  "DeleteSpace_builtin ''default-space'' ''known-owner'' = Some errUnremovableDefaultSpace
   \<and> fst (DeleteSpace builtinStore ''default-space'' ''known-owner'' ())
       = Some errUnremovableDefaultSpace"
  using builtin_is_injected [of "''default-space''" "''known-owner''" "()"]
  by (simp add: builtin_chain fetchSpaceWithID_def defaultSpaceName_def)

subsection \<open>A removable space\<close>

text \<open>
  C2, as the code has it. For every store and every space \<open>space\<close> that the store returns for
  the identifier \<open>ident\<close>, owned by the acting user, without resources and not named
  \<^verbatim>\<open>"default"\<close>: \<^verbatim>\<open>DeleteSpace\<close> returns what the remove of the store returns, hence no error
  when the remove succeeds, and the remove is called exactly once, with the identifier the
  caller passed. That is the \<^verbatim>\<open>id\<close> of the space whenever the store files each space under its
  own \<^verbatim>\<open>id\<close>.
\<close>

theorem removable_space_removed_by_lookup_id:
  assumes "fst (FetchSpaceWithID store ident s) = Some space"
    and "ownerID space = whoAmI" and "resources space = []" and "name space \<noteq> ''default''"
  shows "DeleteSpace store ident whoAmI s =
           RemoveSpaceWithID store ident (snd (FetchSpaceWithID store ident s))
         \<and> (fst (RemoveSpaceWithID store ident (snd (FetchSpaceWithID store ident s))) = None
              \<longrightarrow> fst (DeleteSpace store ident whoAmI s) = None)
         \<and> removals (calls store ident whoAmI s) = [ident]
         \<and> (id' space = ident \<longrightarrow> removals (calls store ident whoAmI s) = [id' space])"
proof -
  from assms(2-4) have r: "removable space whoAmI" by (simp add: removable_iff)
  from result_removable [OF assms(1) r] calls_removable [OF assms(1) r]
  show ?thesis by simp
qed

text \<open>The last scenario of the specification: the double hands out a removable space.\<close>

theorem removable_space_removed_by_lookup_id_witness:
  "fst (DeleteSpace
          (double (Some \<lparr>id' = ''known-space'', ownerID = ''known-owner'', name = ''x'',
                         resources = []\<rparr>) None)
          ''known-space'' ''known-owner'' ()) = None
   \<and> removals (calls
          (double (Some \<lparr>id' = ''known-space'', ownerID = ''known-owner'', name = ''x'',
                         resources = []\<rparr>) None)
          ''known-space'' ''known-owner'' ()) = [''known-space'']"
  using removable_space_removed_by_lookup_id
    [of "double (Some \<lparr>id' = ''known-space'', ownerID = ''known-owner'', name = ''x'',
                        resources = []\<rparr>) None"
        "''known-space''" "()"
        "\<lparr>id' = ''known-space'', ownerID = ''known-owner'', name = ''x'', resources = []\<rparr>"
        "''known-owner''"]
  by (simp add: double_fetch double_remove)

text \<open>
  C2 as stated, with the remove called on the \<^verbatim>\<open>id\<close> of the space, fails on the store of the
  tests chapter: \<^verbatim>\<open>fetchSpaceWithID\<close> answers an identifier it has no case for with the space
  whose \<^verbatim>\<open>id\<close> is \<^verbatim>\<open>"known-space"\<close>. That space is owned, empty and not the default one, the call
  succeeds, and the one remove call carries the identifier that was passed.
\<close>

theorem removal_by_space_id_counterexample:
  "fst (FetchSpaceWithID builtinStore ''another-space'' ())
     = Some \<lparr>id' = ''known-space'', ownerID = ''known-owner'', name = ''a space name'',
             resources = []\<rparr>
   \<and> fst (DeleteSpace builtinStore ''another-space'' ''known-owner'' ()) = None
   \<and> removals (calls builtinStore ''another-space'' ''known-owner'' ()) = [''another-space'']
   \<and> removals (calls builtinStore ''another-space'' ''known-owner'' ()) \<noteq> [''known-space'']"
proof -
  have f: "fst (FetchSpaceWithID builtinStore ''another-space'' ())
     = Some \<lparr>id' = ''known-space'', ownerID = ''known-owner'', name = ''a space name'',
             resources = []\<rparr>"
    by (simp add: builtin_fetch fetchSpaceWithID_def)
  have r: "removable \<lparr>id' = ''known-space'', ownerID = ''known-owner'', name = ''a space name'',
             resources = []\<rparr> ''known-owner''"
    by (simp add: removable_iff)
  have "fst (DeleteSpace builtinStore ''another-space'' ''known-owner'' ()) = None"
    by (simp add: result_removable [OF f r] builtin_remove removeSpaceWithID_def)
  moreover have "removals (calls builtinStore ''another-space'' ''known-owner'' ()) = [''another-space'']"
    by (simp add: calls_removable [OF f r])
  ultimately show ?thesis using f by simp
qed

subsection \<open>What is asked of the store\<close>

text \<open>
  C3, as the code has it. Every call of \<^verbatim>\<open>DeleteSpace\<close> calls the fetch of the store exactly
  once, first, with the identifier passed. It calls the remove exactly when the fetched space
  exists, is owned by the acting user, is empty and is not named \<^verbatim>\<open>"default"\<close>, and then once,
  after the fetch, with the same identifier, whatever the remove then returns. So a call that
  returns no error has called the remove exactly once, a call stopped by a guard has not
  called it, and the store is asked nothing else.
\<close>

theorem DeleteSpace_store_calls:
  "fetches (calls store ident whoAmI s) = [ident]
   \<and> (calls store ident whoAmI s = [FetchCall ident]
        \<or> calls store ident whoAmI s = [FetchCall ident, RemoveCall ident])
   \<and> (calls store ident whoAmI s = [FetchCall ident, RemoveCall ident]
        \<longleftrightarrow> (\<exists>space. fst (FetchSpaceWithID store ident s) = Some space
               \<and> ownerID space = whoAmI \<and> resources space = [] \<and> name space \<noteq> ''default''))
   \<and> (fst (DeleteSpace store ident whoAmI s) = None
        \<longrightarrow> calls store ident whoAmI s = [FetchCall ident, RemoveCall ident])
   \<and> (removals (calls store ident whoAmI s) = []
        \<longrightarrow> fst (DeleteSpace store ident whoAmI s)
              \<in> {Some errCannotFetchSpace, Some errNotAnOwnedSpace, Some errNonEmptySpace,
                  Some errUnremovableDefaultSpace})"
proof (cases "fst (FetchSpaceWithID store ident s)")
  case None
  then show ?thesis by (simp add: calls_absent result_absent)
next
  case (Some space)
  show ?thesis
  proof (cases "removable space whoAmI")
    case True
    with Some show ?thesis
      by (simp add: calls_removable [OF Some True] removable_iff)
  next
    case False
    with Some show ?thesis
      by (simp add: calls_blocked [OF Some False] result_blocked [OF Some False] removable_iff)
  qed
qed

theorem DeleteSpace_store_calls_witness:
  "calls (double (Some \<lparr>id' = ''known-space'', ownerID = ''known-owner'', name = ''x'',
                        resources = []\<rparr>) None)
         ''known-space'' ''known-owner'' () = [FetchCall ''known-space'', RemoveCall ''known-space'']"
  using DeleteSpace_store_calls
    [of "double (Some \<lparr>id' = ''known-space'', ownerID = ''known-owner'', name = ''x'',
                        resources = []\<rparr>) None"
        "''known-space''" "''known-owner''" "()"]
  by (simp add: double_fetch)

text \<open>
  C3 as stated, with no remove in a call that returns an error, fails where the remove itself
  fails: the store of the tests chapter at \<^verbatim>\<open>"fails-on-remove"\<close> returns an error from a
  remove that was called.
\<close>

theorem error_after_remove_counterexample:
  "fst (DeleteSpace builtinStore ''fails-on-remove'' ''known-owner'' ())
     = Some errSpaceCouldNotBeRemoved
   \<and> calls builtinStore ''fails-on-remove'' ''known-owner'' ()
     = [FetchCall ''fails-on-remove'', RemoveCall ''fails-on-remove'']"
proof -
  have f: "fst (FetchSpaceWithID builtinStore ''fails-on-remove'' ())
     = Some \<lparr>id' = ''known-space'', ownerID = ''known-owner'', name = ''a space name'',
             resources = []\<rparr>"
    by (simp add: builtin_fetch fetchSpaceWithID_def)
  have r: "removable \<lparr>id' = ''known-space'', ownerID = ''known-owner'', name = ''a space name'',
             resources = []\<rparr> ''known-owner''"
    by (simp add: removable_iff)
  show ?thesis
    by (simp add: result_removable [OF f r] calls_removable [OF f r] builtin_remove
        removeSpaceWithID_def)
qed

subsection \<open>The error values\<close>

text \<open>
  C4, as the code has it. The four errors of the guards and \<open>errSpaceCouldNotBeRemoved\<close> are
  five different values. Two calls stopped by different guards, on any stores and inputs,
  never return the same error; in particular a call whose fetch answers \<^verbatim>\<open>nil\<close> and a call
  whose space is not owned differ. A call that passes every guard returns the value the
  remove of its store returned, unchanged: it differs from the error of a call stopped by a
  guard whenever the value of the store is none of the four guard errors, as
  \<open>errSpaceCouldNotBeRemoved\<close> is.
\<close>

theorem DeleteSpace_error_values:
  "distinct [errCannotFetchSpace, errNotAnOwnedSpace, errNonEmptySpace,
             errUnremovableDefaultSpace, errSpaceCouldNotBeRemoved]
   \<and> (0 < stoppedAt (fst (FetchSpaceWithID store1 ident1 s1)) who1
        \<and> 0 < stoppedAt (fst (FetchSpaceWithID store2 ident2 s2)) who2
        \<and> stoppedAt (fst (FetchSpaceWithID store1 ident1 s1)) who1
            \<noteq> stoppedAt (fst (FetchSpaceWithID store2 ident2 s2)) who2
        \<longrightarrow> fst (DeleteSpace store1 ident1 who1 s1) \<noteq> fst (DeleteSpace store2 ident2 who2 s2))
   \<and> (fst (FetchSpaceWithID store1 ident1 s1) = None
        \<and> (\<exists>space. fst (FetchSpaceWithID store2 ident2 s2) = Some space \<and> ownerID space \<noteq> who2)
        \<longrightarrow> fst (DeleteSpace store1 ident1 who1 s1) \<noteq> fst (DeleteSpace store2 ident2 who2 s2))
   \<and> (stoppedAt (fst (FetchSpaceWithID store2 ident2 s2)) who2 = 0
        \<longrightarrow> DeleteSpace store2 ident2 who2 s2
              = RemoveSpaceWithID store2 ident2 (snd (FetchSpaceWithID store2 ident2 s2)))
   \<and> (0 < stoppedAt (fst (FetchSpaceWithID store1 ident1 s1)) who1
        \<and> stoppedAt (fst (FetchSpaceWithID store2 ident2 s2)) who2 = 0
        \<and> fst (RemoveSpaceWithID store2 ident2 (snd (FetchSpaceWithID store2 ident2 s2)))
            \<notin> {Some errCannotFetchSpace, Some errNotAnOwnedSpace, Some errNonEmptySpace,
                Some errUnremovableDefaultSpace}
        \<longrightarrow> fst (DeleteSpace store1 ident1 who1 s1) \<noteq> fst (DeleteSpace store2 ident2 who2 s2))"
proof (intro conjI impI)
  show "distinct [errCannotFetchSpace, errNotAnOwnedSpace, errNonEmptySpace,
             errUnremovableDefaultSpace, errSpaceCouldNotBeRemoved]"
    by simp
next
  let ?m = "stoppedAt (fst (FetchSpaceWithID store1 ident1 s1)) who1"
  let ?n = "stoppedAt (fst (FetchSpaceWithID store2 ident2 s2)) who2"
  let ?es = "[errCannotFetchSpace, errNotAnOwnedSpace, errNonEmptySpace, errUnremovableDefaultSpace]"
  assume a: "0 < ?m \<and> 0 < ?n \<and> ?m \<noteq> ?n"
  have d: "distinct ?es" by simp
  have lm: "?m - 1 < length ?es" using a stoppedAt_le [of "fst (FetchSpaceWithID store1 ident1 s1)" who1]
    by simp
  have ln: "?n - 1 < length ?es" using a stoppedAt_le [of "fst (FetchSpaceWithID store2 ident2 s2)" who2]
    by simp
  from a have "?m - 1 \<noteq> ?n - 1" by arith
  with d lm ln have "?es ! (?m - 1) \<noteq> ?es ! (?n - 1)"
    by (metis nth_eq_iff_index_eq)
  moreover from a have "fst (DeleteSpace store1 ident1 who1 s1) = Some (?es ! (?m - 1))"
    by (simp only: stoppedAt_result)
  moreover from a have "fst (DeleteSpace store2 ident2 who2 s2) = Some (?es ! (?n - 1))"
    by (simp only: stoppedAt_result)
  ultimately show "fst (DeleteSpace store1 ident1 who1 s1) \<noteq> fst (DeleteSpace store2 ident2 who2 s2)"
    by simp
next
  assume "fst (FetchSpaceWithID store1 ident1 s1) = None
        \<and> (\<exists>space. fst (FetchSpaceWithID store2 ident2 s2) = Some space \<and> ownerID space \<noteq> who2)"
  then obtain space where n: "fst (FetchSpaceWithID store1 ident1 s1) = None"
    and p: "fst (FetchSpaceWithID store2 ident2 s2) = Some space" and o: "ownerID space \<noteq> who2"
    by blast
  from o show "fst (DeleteSpace store1 ident1 who1 s1) \<noteq> fst (DeleteSpace store2 ident2 who2 s2)"
    by (simp add: result_absent [OF n] result_present [OF p])
next
  assume "stoppedAt (fst (FetchSpaceWithID store2 ident2 s2)) who2 = 0"
  then show "DeleteSpace store2 ident2 who2 s2
              = RemoveSpaceWithID store2 ident2 (snd (FetchSpaceWithID store2 ident2 s2))"
    by (rule stoppedAt_passed)
next
  let ?m = "stoppedAt (fst (FetchSpaceWithID store1 ident1 s1)) who1"
  let ?es = "[errCannotFetchSpace, errNotAnOwnedSpace, errNonEmptySpace, errUnremovableDefaultSpace]"
  assume a: "0 < ?m
        \<and> stoppedAt (fst (FetchSpaceWithID store2 ident2 s2)) who2 = 0
        \<and> fst (RemoveSpaceWithID store2 ident2 (snd (FetchSpaceWithID store2 ident2 s2)))
            \<notin> {Some errCannotFetchSpace, Some errNotAnOwnedSpace, Some errNonEmptySpace,
                Some errUnremovableDefaultSpace}"
  then have e2: "DeleteSpace store2 ident2 who2 s2
              = RemoveSpaceWithID store2 ident2 (snd (FetchSpaceWithID store2 ident2 s2))"
    by (simp only: stoppedAt_passed)
  have lm: "?m - 1 < length ?es" using a stoppedAt_le [of "fst (FetchSpaceWithID store1 ident1 s1)" who1]
    by simp
  then have "?es ! (?m - 1) \<in> set ?es" by (rule nth_mem)
  moreover from a have "fst (DeleteSpace store1 ident1 who1 s1) = Some (?es ! (?m - 1))"
    by (simp only: stoppedAt_result)
  ultimately have "fst (DeleteSpace store1 ident1 who1 s1)
      \<in> {Some errCannotFetchSpace, Some errNotAnOwnedSpace, Some errNonEmptySpace,
                Some errUnremovableDefaultSpace}"
    by auto
  with a e2 show "fst (DeleteSpace store1 ident1 who1 s1) \<noteq> fst (DeleteSpace store2 ident2 who2 s2)"
    by auto
qed

text \<open>
  The first two scenarios of the specification side by side: a double that finds nothing
  and a double whose space belongs to someone else return different errors.
\<close>

theorem DeleteSpace_error_values_witness:
  "fst (DeleteSpace (double None None) ''unknown-space'' ''known-owner'' ())
     \<noteq> fst (DeleteSpace
              (double (Some \<lparr>id' = ''known-space'', ownerID = ''someone-else'', name = ''x'',
                             resources = []\<rparr>) None)
              ''known-space'' ''known-owner'' ())"
  using DeleteSpace_error_values
    [of "double None None" "''unknown-space''" "()" "''known-owner''"
        "double (Some \<lparr>id' = ''known-space'', ownerID = ''someone-else'', name = ''x'',
                        resources = []\<rparr>) None"
        "''known-space''" "()" "''known-owner''"]
  by (simp add: double_fetch)

text \<open>
  C4 as stated, with the error of a failed remove never one of the four guard errors, fails
  on a double whose remove is configured to return \<open>errNotAnOwnedSpace\<close>: the space passes
  every guard, the remove fails, and the caller receives the very value that a call on a
  space of someone else receives.
\<close>

theorem removal_error_conflated_counterexample:
  "stoppedAt (Some \<lparr>id' = ''known-space'', ownerID = ''known-owner'',
                    name = ''not a default space'', resources = []\<rparr>) ''known-owner'' = 0
   \<and> fst (RemoveSpaceWithID
           (double (Some \<lparr>id' = ''known-space'', ownerID = ''known-owner'',
                          name = ''not a default space'', resources = []\<rparr>)
                   (Some errNotAnOwnedSpace))
           ''known-space'' ()) = Some errNotAnOwnedSpace
   \<and> fst (DeleteSpace
           (double (Some \<lparr>id' = ''known-space'', ownerID = ''known-owner'',
                          name = ''not a default space'', resources = []\<rparr>)
                   (Some errNotAnOwnedSpace))
           ''known-space'' ''known-owner'' ())
     = fst (DeleteSpace
           (double (Some \<lparr>id' = ''known-space'', ownerID = ''unknown-owner'',
                          name = ''not a default space'', resources = []\<rparr>)
                   None)
           ''known-space'' ''known-owner'' ())"
  by (simp add: result_chain double_fetch double_remove stoppedAt_def isOwnedBy_def isEmpty_def
      isTheDefault_def defaultSpaceName_def)

subsection \<open>The default space\<close>

text \<open>
  C5. For every store and every fetched space named \<^verbatim>\<open>"default"\<close>, \<^verbatim>\<open>DeleteSpace\<close> does not call
  the remove of the store and does not return without an error; when that space is owned by
  the acting user and empty, the error is \<open>errUnremovableDefaultSpace\<close>.
\<close>

theorem default_space_never_removed:
  assumes "fst (FetchSpaceWithID store ident s) = Some space" and "name space = ''default''"
  shows "removals (calls store ident whoAmI s) = []
         \<and> calls store ident whoAmI s = [FetchCall ident]
         \<and> fst (DeleteSpace store ident whoAmI s) \<noteq> None
         \<and> (ownerID space = whoAmI \<and> resources space = []
              \<longrightarrow> fst (DeleteSpace store ident whoAmI s) = Some errUnremovableDefaultSpace)"
proof -
  from assms(2) have b: "\<not> removable space whoAmI" by (simp add: removable_iff)
  from calls_blocked [OF assms(1) b] result_blocked [OF assms(1) b]
  show ?thesis by simp
qed

text \<open>The fourth scenario of the specification.\<close>

theorem default_space_never_removed_witness:
  "fst (DeleteSpace
          (double (Some \<lparr>id' = ''known-space'', ownerID = ''known-owner'', name = ''default'',
                         resources = []\<rparr>) None)
          ''known-space'' ''known-owner'' ()) = Some errUnremovableDefaultSpace
   \<and> removals (calls
          (double (Some \<lparr>id' = ''known-space'', ownerID = ''known-owner'', name = ''default'',
                         resources = []\<rparr>) None)
          ''known-space'' ''known-owner'' ()) = []"
  using default_space_never_removed
    [of "double (Some \<lparr>id' = ''known-space'', ownerID = ''known-owner'', name = ''default'',
                        resources = []\<rparr>) None"
        "''known-space''" "()"
        "\<lparr>id' = ''known-space'', ownerID = ''known-owner'', name = ''default'', resources = []\<rparr>"
        "''known-owner''"]
  by (simp add: double_fetch)

subsection \<open>A remove that fails\<close>

text \<open>
  C7, as the code has it. For every store whose remove reports an error \<open>e\<close> for a space that
  is found, owned by the acting user, empty and not named \<^verbatim>\<open>"default"\<close>, \<^verbatim>\<open>DeleteSpace\<close> fails,
  and the error it returns is \<open>e\<close> itself, not wrapped, so the cause the store gave is in the
  caller's hands. No kind of its own marks the failure of a remove: the returned value is
  \<open>errSpaceCouldNotBeRemoved\<close> exactly when that is what the store reported, and it is none of
  the four guard errors exactly when the value of the store is none of them. The version with
  the data access built in forwards the error of \<^verbatim>\<open>removeSpaceWithID\<close>, which is always
  \<open>errSpaceCouldNotBeRemoved\<close>.
\<close>

theorem removal_failure_forwarded:
  "(fst (FetchSpaceWithID store ident s) = Some space
      \<and> ownerID space = whoAmI \<and> resources space = [] \<and> name space \<noteq> ''default''
      \<and> fst (RemoveSpaceWithID store ident (snd (FetchSpaceWithID store ident s))) = Some e
    \<longrightarrow> fst (DeleteSpace store ident whoAmI s) = Some e
        \<and> fst (DeleteSpace store ident whoAmI s) \<noteq> None
        \<and> (fst (DeleteSpace store ident whoAmI s) = Some errSpaceCouldNotBeRemoved
             \<longleftrightarrow> e = errSpaceCouldNotBeRemoved)
        \<and> (fst (DeleteSpace store ident whoAmI s)
              \<in> {Some errCannotFetchSpace, Some errNotAnOwnedSpace, Some errNonEmptySpace,
                  Some errUnremovableDefaultSpace}
             \<longleftrightarrow> e \<in> {errCannotFetchSpace, errNotAnOwnedSpace, errNonEmptySpace,
                      errUnremovableDefaultSpace}))
   \<and> (fetchSpaceWithID ident = Some space
      \<and> ownerID space = whoAmI \<and> resources space = [] \<and> name space \<noteq> ''default''
      \<and> removeSpaceWithID ident = Some e
    \<longrightarrow> DeleteSpace_builtin ident whoAmI = Some e
        \<and> e = errSpaceCouldNotBeRemoved)"
proof (intro conjI impI)
  assume a: "fst (FetchSpaceWithID store ident s) = Some space
      \<and> ownerID space = whoAmI \<and> resources space = [] \<and> name space \<noteq> ''default''
      \<and> fst (RemoveSpaceWithID store ident (snd (FetchSpaceWithID store ident s))) = Some e"
  then have f: "fst (FetchSpaceWithID store ident s) = Some space"
    and r: "removable space whoAmI"
    by (simp_all add: removable_iff)
  from a show fwd: "fst (DeleteSpace store ident whoAmI s) = Some e"
    by (simp add: result_removable [OF f r])
  then show "fst (DeleteSpace store ident whoAmI s) \<noteq> None" by simp
  from fwd show "fst (DeleteSpace store ident whoAmI s) = Some errSpaceCouldNotBeRemoved
             \<longleftrightarrow> e = errSpaceCouldNotBeRemoved"
    by auto
  from fwd show "fst (DeleteSpace store ident whoAmI s)
              \<in> {Some errCannotFetchSpace, Some errNotAnOwnedSpace, Some errNonEmptySpace,
                  Some errUnremovableDefaultSpace}
             \<longleftrightarrow> e \<in> {errCannotFetchSpace, errNotAnOwnedSpace, errNonEmptySpace,
                      errUnremovableDefaultSpace}"
    by auto
next
  assume b: "fetchSpaceWithID ident = Some space
      \<and> ownerID space = whoAmI \<and> resources space = [] \<and> name space \<noteq> ''default''
      \<and> removeSpaceWithID ident = Some e"
  then show "DeleteSpace_builtin ident whoAmI = Some e"
    by (simp add: builtin_chain)
  from b show "e = errSpaceCouldNotBeRemoved"
    by (auto simp add: removeSpaceWithID_def split: if_splits)
qed

text \<open>
  The fifth scenario of the specification, on the configured double, and the same scenario in
  the tests chapter, where the identifier \<^verbatim>\<open>"fails-on-remove"\<close> makes the remove fail.
\<close>

theorem removal_failure_forwarded_witness:
  "fst (DeleteSpace
          (double (Some \<lparr>id' = ''known-space'', ownerID = ''known-owner'', name = ''x'',
                         resources = []\<rparr>) (Some errSpaceCouldNotBeRemoved))
          ''known-space'' ''known-owner'' ()) = Some errSpaceCouldNotBeRemoved
   \<and> fetchSpaceWithID ''fails-on-remove''
       = Some \<lparr>id' = ''known-space'', ownerID = ''known-owner'', name = ''a space name'',
               resources = []\<rparr>
   \<and> removeSpaceWithID ''fails-on-remove'' = Some errSpaceCouldNotBeRemoved
   \<and> fst (DeleteSpace builtinStore ''fails-on-remove'' ''known-owner'' ())
       = Some errSpaceCouldNotBeRemoved
   \<and> DeleteSpace_builtin ''fails-on-remove'' ''known-owner'' = Some errSpaceCouldNotBeRemoved"
proof -
  have d: "fst (DeleteSpace
          (double (Some \<lparr>id' = ''known-space'', ownerID = ''known-owner'', name = ''x'',
                         resources = []\<rparr>) (Some errSpaceCouldNotBeRemoved))
          ''known-space'' ''known-owner'' ()) = Some errSpaceCouldNotBeRemoved"
    using removal_failure_forwarded
      [of "double (Some \<lparr>id' = ''known-space'', ownerID = ''known-owner'', name = ''x'',
                          resources = []\<rparr>) (Some errSpaceCouldNotBeRemoved)"
          "''known-space''" "()"
          "\<lparr>id' = ''known-space'', ownerID = ''known-owner'', name = ''x'', resources = []\<rparr>"
          "''known-owner''" errSpaceCouldNotBeRemoved]
    by (simp add: double_fetch double_remove)
  have f: "fetchSpaceWithID ''fails-on-remove''
       = Some \<lparr>id' = ''known-space'', ownerID = ''known-owner'', name = ''a space name'',
               resources = []\<rparr>"
    by (simp add: fetchSpaceWithID_def)
  have r: "removeSpaceWithID ''fails-on-remove'' = Some errSpaceCouldNotBeRemoved"
    by (simp add: removeSpaceWithID_def)
  have b: "fst (DeleteSpace builtinStore ''fails-on-remove'' ''known-owner'' ())
       = Some errSpaceCouldNotBeRemoved
     \<and> DeleteSpace_builtin ''fails-on-remove'' ''known-owner'' = Some errSpaceCouldNotBeRemoved"
    using removal_failure_forwarded
      [of builtinStore "''fails-on-remove''" "()"
          "\<lparr>id' = ''known-space'', ownerID = ''known-owner'', name = ''a space name'',
            resources = []\<rparr>"
          "''known-owner''" errSpaceCouldNotBeRemoved] f r
    by (simp add: builtin_fetch builtin_remove)
  from d f r b show ?thesis by simp
qed

text \<open>
  C7 as stated, with a failure of its own kind for the remove, fails on a double whose remove
  is configured to return \<open>errNonEmptySpace\<close>: the space is found, owned, empty and not the
  default one, the remove reports an error, and what the caller receives is not
  \<open>errSpaceCouldNotBeRemoved\<close> but the value that a call on a space with resources returns.
\<close>

theorem removal_failure_kind_counterexample:
  "fst (FetchSpaceWithID
           (double (Some \<lparr>id' = ''known-space'', ownerID = ''known-owner'',
                          name = ''not a default space'', resources = []\<rparr>)
                   (Some errNonEmptySpace))
           ''known-space'' ())
     = Some \<lparr>id' = ''known-space'', ownerID = ''known-owner'',
             name = ''not a default space'', resources = []\<rparr>
   \<and> fst (RemoveSpaceWithID
           (double (Some \<lparr>id' = ''known-space'', ownerID = ''known-owner'',
                          name = ''not a default space'', resources = []\<rparr>)
                   (Some errNonEmptySpace))
           ''known-space'' ()) = Some errNonEmptySpace
   \<and> fst (DeleteSpace
           (double (Some \<lparr>id' = ''known-space'', ownerID = ''known-owner'',
                          name = ''not a default space'', resources = []\<rparr>)
                   (Some errNonEmptySpace))
           ''known-space'' ''known-owner'' ()) \<noteq> Some errSpaceCouldNotBeRemoved
   \<and> fst (DeleteSpace
           (double (Some \<lparr>id' = ''known-space'', ownerID = ''known-owner'',
                          name = ''not a default space'', resources = []\<rparr>)
                   (Some errNonEmptySpace))
           ''known-space'' ''known-owner'' ())
     = fst (DeleteSpace
           (double (Some \<lparr>id' = ''known-space'', ownerID = ''known-owner'',
                          name = ''not a default space'', resources = [Resource]\<rparr>)
                   None)
           ''known-space'' ''known-owner'' ())"
  by (simp add: result_chain double_fetch double_remove)

subsection \<open>Calling twice\<close>

text \<open>
  C8. For every store whose answers do not depend on earlier calls, either because they do
  not depend on its state or because no call changes its state, a second call of
  \<^verbatim>\<open>DeleteSpace\<close> with the same identifier and acting user, made on the state the first call
  left, returns what the first returned. \<^verbatim>\<open>DeleteSpace\<close> keeps nothing itself: the state it
  leaves is the state the store's own methods leave.
\<close>

theorem DeleteSpace_twice_same_result:
  assumes "sameAnswers store \<or> keepsState store"
  shows "fst (DeleteSpace store ident whoAmI (snd (DeleteSpace store ident whoAmI s)))
           = fst (DeleteSpace store ident whoAmI s)
         \<and> snd (DeleteSpace store ident whoAmI s)
             \<in> {snd (FetchSpaceWithID store ident s),
                snd (RemoveSpaceWithID store ident (snd (FetchSpaceWithID store ident s)))}"
proof
  from assms show "fst (DeleteSpace store ident whoAmI (snd (DeleteSpace store ident whoAmI s)))
           = fst (DeleteSpace store ident whoAmI s)"
  proof
    assume sa: "sameAnswers store"
    let ?t = "snd (DeleteSpace store ident whoAmI s)"
    from sa have f: "fst (FetchSpaceWithID store ident ?t) = fst (FetchSpaceWithID store ident s)"
      unfolding sameAnswers_def by blast
    from sa have r: "fst (RemoveSpaceWithID store ident (snd (FetchSpaceWithID store ident ?t)))
        = fst (RemoveSpaceWithID store ident (snd (FetchSpaceWithID store ident s)))"
      unfolding sameAnswers_def by blast
    have "fst (DeleteSpace store ident whoAmI ?t) =
     (case fst (FetchSpaceWithID store ident s) of
        None \<Rightarrow> Some errCannotFetchSpace
      | Some space \<Rightarrow>
          if ownerID space \<noteq> whoAmI then Some errNotAnOwnedSpace
          else if resources space \<noteq> [] then Some errNonEmptySpace
          else if name space = ''default'' then Some errUnremovableDefaultSpace
          else fst (RemoveSpaceWithID store ident (snd (FetchSpaceWithID store ident s))))"
      by (simp only: result_chain [of store ident whoAmI ?t] f r)
    then show ?thesis by (simp only: result_chain [of store ident whoAmI s])
  next
    assume ks: "keepsState store"
    then have f: "snd (FetchSpaceWithID store ident s) = s"
      and r: "snd (RemoveSpaceWithID store ident s) = s"
      unfolding keepsState_def by blast+
    have "snd (DeleteSpace store ident whoAmI s) = s"
      by (cases "fst (FetchSpaceWithID store ident s)") (simp_all add: state_chain f r)
    then show ?thesis by simp
  qed
next
  show "snd (DeleteSpace store ident whoAmI s)
             \<in> {snd (FetchSpaceWithID store ident s),
                snd (RemoveSpaceWithID store ident (snd (FetchSpaceWithID store ident s)))}"
    by (cases "fst (FetchSpaceWithID store ident s)") (simp_all add: state_chain)
qed

text \<open>
  A double that counts its calls in its state and answers as the fifth scenario asks: its state
  changes with every call, its answers do not, and both calls fail the same way.
\<close>

theorem DeleteSpace_twice_same_result_witness:
  "sameAnswers (recording (double (Some \<lparr>id' = ''known-space'', ownerID = ''known-owner'',
                                          name = ''x'', resources = []\<rparr>)
                                   (Some errSpaceCouldNotBeRemoved)))
   \<and> fst (DeleteSpace
          (recording (double (Some \<lparr>id' = ''known-space'', ownerID = ''known-owner'',
                                     name = ''x'', resources = []\<rparr>)
                              (Some errSpaceCouldNotBeRemoved)))
          ''known-space'' ''known-owner''
          (snd (DeleteSpace
             (recording (double (Some \<lparr>id' = ''known-space'', ownerID = ''known-owner'',
                                        name = ''x'', resources = []\<rparr>)
                                 (Some errSpaceCouldNotBeRemoved)))
             ''known-space'' ''known-owner'' ((), []))))
       = Some errSpaceCouldNotBeRemoved"
proof -
  let ?d = "recording (double (Some \<lparr>id' = ''known-space'', ownerID = ''known-owner'',
                                     name = ''x'', resources = []\<rparr>)
                              (Some errSpaceCouldNotBeRemoved))"
  have h: "sameAnswers ?d"
    by (simp add: sameAnswers_def recording_def double_def split_def)
  then have "sameAnswers ?d \<or> keepsState ?d" ..
  from DeleteSpace_twice_same_result [OF this, of "''known-space''" "''known-owner''" "((), [])"]
  have "fst (DeleteSpace ?d ''known-space'' ''known-owner''
               (snd (DeleteSpace ?d ''known-space'' ''known-owner'' ((), []))))
        = fst (DeleteSpace ?d ''known-space'' ''known-owner'' ((), []))"
    by simp
  also have "\<dots> = Some errSpaceCouldNotBeRemoved"
    by (simp add: result_chain recording_fetch recording_remove double_fetch double_remove)
  finally show ?thesis using h by simp
qed

subsection \<open>The identifier handed to the remove\<close>

text \<open>
  C10. When every guard is passed, \<^verbatim>\<open>DeleteSpace\<close> calls the remove of the store with the
  identifier its caller passed, not with the \<^verbatim>\<open>id\<close> field of the fetched space: for a store
  that answers the identifier with a space whose \<^verbatim>\<open>id\<close> differs from it, the remove still
  receives the identifier passed, and \<^verbatim>\<open>DeleteSpace\<close> returns what the remove returned,
  unchanged.
\<close>

theorem remove_receives_lookup_id:
  assumes "fst (FetchSpaceWithID store ident s) = Some space"
    and "ownerID space = whoAmI" and "resources space = []" and "name space \<noteq> ''default''"
    and "id' space \<noteq> ident"
  shows "calls store ident whoAmI s = [FetchCall ident, RemoveCall ident]
         \<and> RemoveCall (id' space) \<notin> set (calls store ident whoAmI s)
         \<and> fst (DeleteSpace store ident whoAmI s)
             = fst (RemoveSpaceWithID store ident (snd (FetchSpaceWithID store ident s)))"
proof -
  from assms(2-4) have r: "removable space whoAmI" by (simp add: removable_iff)
  from calls_removable [OF assms(1) r] result_removable [OF assms(1) r] assms(5)
  show ?thesis by simp
qed

text \<open>
  The store of the tests chapter at \<^verbatim>\<open>"fails-on-remove"\<close>: the space it hands out carries
  the \<^verbatim>\<open>id\<close> \<^verbatim>\<open>"known-space"\<close>, the remove is asked for \<^verbatim>\<open>"fails-on-remove"\<close>, and its error comes
  back as it is.
\<close>

theorem remove_receives_lookup_id_witness:
  "calls builtinStore ''fails-on-remove'' ''known-owner'' ()
     = [FetchCall ''fails-on-remove'', RemoveCall ''fails-on-remove'']
   \<and> RemoveCall ''known-space'' \<notin> set (calls builtinStore ''fails-on-remove'' ''known-owner'' ())
   \<and> fst (DeleteSpace builtinStore ''fails-on-remove'' ''known-owner'' ())
       = Some errSpaceCouldNotBeRemoved"
proof -
  have f: "fst (FetchSpaceWithID builtinStore ''fails-on-remove'' ())
     = Some \<lparr>id' = ''known-space'', ownerID = ''known-owner'', name = ''a space name'',
             resources = []\<rparr>"
    by (simp add: builtin_fetch fetchSpaceWithID_def)
  from remove_receives_lookup_id [OF f, of "''known-owner''"]
  show ?thesis by (simp add: builtin_fetch builtin_remove removeSpaceWithID_def)
qed

end
